theory Spec2Isabelle
  imports Main
begin

section \<open>JavaScript values and errors\<close>

text \<open>
  The request body is what \<^verbatim>\<open>express.json()\<close> leaves in \<^verbatim>\<open>req.body\<close>: a JSON value, or
  \<^verbatim>\<open>undefined\<close> when no body was parsed. Strings are modelled as \<^typ>\<open>string\<close>
  (the ASCII part of a JavaScript string); the payload of a number is never inspected by
  the server. An object is the list of its members in source order.
\<close>

datatype js_value =
    Undefined
  | Null
  | Boolean bool
  | Number int
  | String string
  | Array "js_value list"
  | Object "(string \<times> js_value) list"

text \<open>
  Thrown values. \<^verbatim>\<open>RequestError\<close> is the error Octokit throws for a failed HTTP request;
  it carries the numeric \<^verbatim>\<open>status\<close> property that the endpoint's \<^verbatim>\<open>catch\<close> reads.
  \<^verbatim>\<open>PlainError\<close> stands for every error object without a \<^verbatim>\<open>status\<close> property
  (a \<^verbatim>\<open>TypeError\<close> of the runtime, an \<^verbatim>\<open>Error\<close> of a library).
\<close>

datatype js_error =
    RequestError nat
  | PlainError string

fun err_status :: "js_error \<Rightarrow> nat option" where
  "err_status (RequestError n) = Some n"
| "err_status (PlainError m) = None"

section \<open>The URL parser: \<^verbatim>\<open>parseGitHubUrl\<close>\<close>

text \<open>
  The two properties of a \<^verbatim>\<open>URL\<close> object that \<^verbatim>\<open>parseGitHubUrl\<close> reads.
\<close>

record url =
  hostname :: string
  pathname :: string

record repo_ref =
  owner :: string
  repo :: string

text \<open>\<^verbatim>\<open>s.split("/")\<close>: the pieces between the separators; never the empty list.\<close>

fun split_on :: "char \<Rightarrow> string \<Rightarrow> string list" where
  "split_on d [] = [[]]"
| "split_on d (c # cs) =
     (if c = d then [] # split_on d cs
      else (case split_on d cs of
              [] \<Rightarrow> [[c]]
            | p # ps \<Rightarrow> (c # p) # ps))"

text \<open>\<^verbatim>\<open>h.replace(/^www\./, "")\<close>: one leading \<^verbatim>\<open>www.\<close> is removed, matched as written.\<close>

definition strip_www :: "string \<Rightarrow> string" where
  "strip_www h = (if take 4 h = ''www.'' then drop 4 h else h)"

text \<open>\<^verbatim>\<open>urlObj.pathname.split("/").filter(Boolean)\<close>: a string is truthy when it is not empty.\<close>

definition path_parts :: "string \<Rightarrow> string list" where
  "path_parts p = filter (\<lambda>s. s \<noteq> []) (split_on (CHR ''/'') p)"

text \<open>
  The body of the \<^verbatim>\<open>try\<close> block. The constructor \<^verbatim>\<open>new URL(inputUrl)\<close> belongs to the
  runtime, not to the repository; it is the parameter \<open>new_URL\<close>, which is \<open>None\<close>
  where the constructor throws its \<^verbatim>\<open>TypeError\<close> and the parsed object otherwise.
  \<open>Inl\<close> is a thrown error, \<open>Inr None\<close> is the returned \<^verbatim>\<open>null\<close>.
\<close>

definition parseGitHubUrl_try ::
  "(js_value \<Rightarrow> url option) \<Rightarrow> js_value \<Rightarrow> js_error + repo_ref option" where
  "parseGitHubUrl_try new_URL inputUrl =
     (case new_URL inputUrl of
        None \<Rightarrow> Inl (PlainError ''TypeError: Invalid URL'')
      | Some urlObj \<Rightarrow>
          (let normalizedHost = strip_www (hostname urlObj) in
           if normalizedHost \<noteq> ''github.com'' then Inr None
           else
             (let parts = path_parts (pathname urlObj) in
              if length parts < 2 then Inr None
              else Inr (Some \<lparr>owner = parts ! 0, repo = parts ! 1\<rparr>))))"

text \<open>The whole function: the bare \<^verbatim>\<open>catch\<close> turns every thrown error into \<^verbatim>\<open>null\<close>.\<close>

definition parseGitHubUrl ::
  "(js_value \<Rightarrow> url option) \<Rightarrow> js_value \<Rightarrow> js_error + repo_ref option" where
  "parseGitHubUrl new_URL inputUrl =
     (case parseGitHubUrl_try new_URL inputUrl of
        Inl e \<Rightarrow> Inr None
      | Inr r \<Rightarrow> Inr r)"

section \<open>A model of the runtime's URL constructor\<close>

text \<open>
  \<^verbatim>\<open>URL\<close> is the runtime's implementation of the WHATWG URL Standard. The theorems about
  \<^verbatim>\<open>parseGitHubUrl\<close> hold for every constructor; \<open>node_URL\<close> below is used to run the code
  on concrete inputs. It follows the standard's basic URL parser, without a base URL, on
  ASCII input with one of the schemes http, https, ws, wss and ftp and a domain as host.
  It gives the \<^verbatim>\<open>hostname\<close> and \<^verbatim>\<open>pathname\<close> of the runtime wherever it accepts an input,
  and it rejects every input without a scheme, as the runtime does. It also rejects what
  lies outside that fragment, some of which the runtime accepts: other schemes, IP
  addresses and punycode labels as host, non-ASCII characters, and \<^verbatim>\<open>^\<close> in the path.
  No theorem below runs it on such an input.
\<close>

definition ascii_upper_letters :: string where
  "ascii_upper_letters = ''ABCDEFGHIJKLMNOPQRSTUVWXYZ''"

definition ascii_lower_letters :: string where
  "ascii_lower_letters = ''abcdefghijklmnopqrstuvwxyz''"

definition ascii_digits :: string where
  "ascii_digits = ''0123456789''"

definition ascii_alpha :: "char \<Rightarrow> bool" where
  "ascii_alpha c = (c \<in> set ascii_upper_letters \<or> c \<in> set ascii_lower_letters)"

definition ascii_digit :: "char \<Rightarrow> bool" where
  "ascii_digit c = (c \<in> set ascii_digits)"

definition ascii_hex_digit :: "char \<Rightarrow> bool" where
  "ascii_hex_digit c = (c \<in> set ''0123456789abcdefABCDEF'')"

definition ascii_lower :: "char \<Rightarrow> char" where
  "ascii_lower c =
     (case map_of (zip ascii_upper_letters ascii_lower_letters) c of
        Some l \<Rightarrow> l
      | None \<Rightarrow> c)"

definition backslash :: char where
  "backslash = CHR 0x5C"

text \<open>
  Leading and trailing C0 controls and spaces are stripped, then every tab and newline is
  removed.
\<close>

definition c0_control_or_space :: "char \<Rightarrow> bool" where
  "c0_control_or_space c = ((of_char c :: nat) \<le> 32)"

definition tab_or_newline :: "char \<Rightarrow> bool" where
  "tab_or_newline c = (c = CHR 0x09 \<or> c = CHR 0x0A \<or> c = CHR 0x0D)"

definition url_input :: "string \<Rightarrow> string" where
  "url_input s =
     filter (\<lambda>c. \<not> tab_or_newline c)
       (rev (dropWhile c0_control_or_space (rev (dropWhile c0_control_or_space s))))"

text \<open>
  Scheme start state and scheme state: a letter, then letters, digits, \<^verbatim>\<open>+\<close>, \<^verbatim>\<open>-\<close> and
  \<^verbatim>\<open>.\<close> up to a colon. Anything else leads to the no-scheme state, which fails without a
  base URL.
\<close>

definition scheme_char :: "char \<Rightarrow> bool" where
  "scheme_char c = (ascii_alpha c \<or> ascii_digit c \<or> c \<in> set ''+-.'')"

definition take_scheme :: "string \<Rightarrow> (string \<times> string) option" where
  "take_scheme s =
     (case s of
        [] \<Rightarrow> None
      | c # cs \<Rightarrow>
          if \<not> ascii_alpha c then None
          else (case dropWhile scheme_char s of
                  [] \<Rightarrow> None
                | d # rest \<Rightarrow>
                    if d = CHR '':'' then Some (map ascii_lower (takeWhile scheme_char s), rest)
                    else None))"

definition special_schemes :: "string list" where
  "special_schemes = [''http'', ''https'', ''ws'', ''wss'', ''ftp'']"

text \<open>Percent-decoding of the host; a byte that is not ASCII is outside the model.\<close>

definition hex_value :: "char \<Rightarrow> nat" where
  "hex_value c =
     (case map_of (zip ''0123456789abcdefABCDEF''
                    [0, 1, 2, 3, 4, 5, 6, 7, 8, 9, 10, 11, 12, 13, 14, 15, 10, 11, 12, 13, 14, 15]) c of
        Some n \<Rightarrow> n
      | None \<Rightarrow> 0)"

fun percent_decode :: "string \<Rightarrow> string" where
  "percent_decode [] = []"
| "percent_decode [c] = [c]"
| "percent_decode [c, d] = [c, d]"
| "percent_decode (c # h1 # h2 # cs) =
     (if c = CHR ''%'' \<and> ascii_hex_digit h1 \<and> ascii_hex_digit h2
      then char_of (16 * hex_value h1 + hex_value h2) # percent_decode cs
      else c # percent_decode (h1 # h2 # cs))"

text \<open>
  Forbidden domain code points: the forbidden host code points, the C0 controls,
  \<^verbatim>\<open>%\<close> and DELETE.
\<close>

definition forbidden_domain_char :: "char \<Rightarrow> bool" where
  "forbidden_domain_char c =
     (c0_control_or_space c \<or> c = CHR 0x7F \<or> c = backslash \<or> c \<in> set ''#/:<>?@[]^|%'')"

text \<open>
  A host whose last label is a number (decimal digits, or \<^verbatim>\<open>0x\<close> and hexadecimal digits)
  goes to the IPv4 parser.
\<close>

definition ends_in_number :: "string \<Rightarrow> bool" where
  "ends_in_number d =
     (let ps = split_on (CHR ''.'') d;
          qs = (if last ps = [] then butlast ps else ps)
      in qs \<noteq> [] \<and>
         (let l = last qs
          in (l \<noteq> [] \<and> list_all ascii_digit l) \<or>
             (map ascii_lower (take 2 l) = ''0x'' \<and> list_all ascii_hex_digit (drop 2 l))))"

definition punycode_label :: "string \<Rightarrow> bool" where
  "punycode_label l = (map ascii_lower (take 4 l) = ''xn--'')"

text \<open>
  The host parser for a special scheme: percent-decode, lower-case (domain to ASCII on an
  ASCII domain without punycode labels), reject forbidden code points.
\<close>

definition parse_domain :: "string \<Rightarrow> string option" where
  "parse_domain h =
     (let d = map ascii_lower (percent_decode h)
      in if h = [] \<or> hd h = CHR ''['' then None
         else if list_ex (\<lambda>c. (of_char c :: nat) \<ge> 128) d then None
         else if list_ex punycode_label (split_on (CHR ''.'') d) then None
         else if list_ex forbidden_domain_char d then None
         else if ends_in_number d then None
         else Some d)"

text \<open>
  The port state: decimal digits only, at most 65535; an empty port is accepted.
\<close>

definition decimal :: "string \<Rightarrow> nat" where
  "decimal ds = foldl (\<lambda>n c. 10 * n + hex_value c) 0 ds"

definition valid_port :: "string \<Rightarrow> bool" where
  "valid_port p = (list_all ascii_digit p \<and> decimal p \<le> 65535)"

text \<open>
  The path state of a special scheme. Segments end at \<^verbatim>\<open>/\<close> or \<^verbatim>\<open>\\<close>; a single-dot
  segment is dropped and a double-dot segment removes the last segment of the path; the
  last segment of the input leaves an empty segment behind when it is a dot segment.
\<close>

definition path_separator :: "char \<Rightarrow> bool" where
  "path_separator c = (c = CHR ''/'' \<or> c = backslash)"

fun split_segments :: "string \<Rightarrow> string list" where
  "split_segments [] = [[]]"
| "split_segments (c # cs) =
     (if path_separator c then [] # split_segments cs
      else (case split_segments cs of
              [] \<Rightarrow> [[c]]
            | p # ps \<Rightarrow> (c # p) # ps))"

definition single_dot :: "string \<Rightarrow> bool" where
  "single_dot s = (map ascii_lower s \<in> set [''.'', ''%2e''])"

definition double_dot :: "string \<Rightarrow> bool" where
  "double_dot s = (map ascii_lower s \<in> set [''..'', ''.%2e'', ''%2e.'', ''%2e%2e''])"

text \<open>
  The path percent-encode set on ASCII, without \<^verbatim>\<open>?\<close> and \<^verbatim>\<open>#\<close>, which end the path.
  \<^verbatim>\<open>^\<close> is left to \<open>outside_path\<close>: versions of the standard differ on it.
\<close>

definition path_encode_char :: "char \<Rightarrow> bool" where
  "path_encode_char c =
     ((of_char c :: nat) \<le> 32 \<or> c = CHR 0x7F \<or> c = CHR 0x22 \<or> c = CHR 0x60 \<or> c \<in> set ''<>{}'')"

definition outside_path :: "char \<Rightarrow> bool" where
  "outside_path c = ((of_char c :: nat) \<ge> 128 \<or> c = CHR ''^'')"

definition hex_digit_of :: "nat \<Rightarrow> char" where
  "hex_digit_of n = ''0123456789ABCDEF'' ! (n mod 16)"

definition percent_encode :: "char \<Rightarrow> string" where
  "percent_encode c =
     (if path_encode_char c
      then [CHR ''%'', hex_digit_of ((of_char c :: nat) div 16), hex_digit_of (of_char c)]
      else [c])"

fun path_state :: "string list \<Rightarrow> string list \<Rightarrow> string list" where
  "path_state path [] = path"
| "path_state path [s] =
     (if double_dot s then butlast path @ [[]]
      else if single_dot s then path @ [[]]
      else path @ [concat (map percent_encode s)])"
| "path_state path (s # t # ss) =
     (if double_dot s then path_state (butlast path) (t # ss)
      else if single_dot s then path_state path (t # ss)
      else path_state (path @ [concat (map percent_encode s)]) (t # ss))"

definition serialize_path :: "string list \<Rightarrow> string" where
  "serialize_path path = concat (map (\<lambda>s. CHR ''/'' # s) path)"

text \<open>
  After the scheme of a special URL every \<^verbatim>\<open>/\<close> and \<^verbatim>\<open>\\<close> is skipped. The authority runs
  to the first \<^verbatim>\<open>/\<close>, \<^verbatim>\<open>\\<close>, \<^verbatim>\<open>?\<close> or \<^verbatim>\<open>#\<close>; the credentials end at its last \<^verbatim>\<open>@\<close>; the
  host ends at the first colon, and the port follows.
\<close>

definition authority_end :: "char \<Rightarrow> bool" where
  "authority_end c = (path_separator c \<or> c = CHR ''?'' \<or> c = CHR ''#'')"

definition parse_special :: "string \<Rightarrow> url option" where
  "parse_special rest =
     (let rest1 = dropWhile path_separator rest;
          authority = takeWhile (\<lambda>c. \<not> authority_end c) rest1;
          tail = dropWhile (\<lambda>c. \<not> authority_end c) rest1;
          hostport = rev (takeWhile (\<lambda>c. c \<noteq> CHR ''@'') (rev authority));
          host = takeWhile (\<lambda>c. c \<noteq> CHR '':'') hostport;
          port = drop 1 (dropWhile (\<lambda>c. c \<noteq> CHR '':'') hostport);
          after_slash = (case tail of
                           [] \<Rightarrow> []
                         | c # cs \<Rightarrow> if path_separator c then cs else tail);
          path_text = takeWhile (\<lambda>c. c \<noteq> CHR ''?'' \<and> c \<noteq> CHR ''#'') after_slash
      in if host = [] \<or> \<not> valid_port port \<or> list_ex outside_path path_text then None
         else (case parse_domain host of
                 None \<Rightarrow> None
               | Some h \<Rightarrow>
                   Some \<lparr>hostname = h,
                         pathname = serialize_path (path_state [] (split_segments path_text))\<rparr>))"

definition URL_parse :: "string \<Rightarrow> url option" where
  "URL_parse s =
     (case take_scheme (url_input s) of
        None \<Rightarrow> None
      | Some (scheme, rest) \<Rightarrow>
          if scheme \<in> set special_schemes then parse_special rest else None)"

text \<open>
  The constructor converts its argument to a string first. The decimal form of a number
  and \<^verbatim>\<open>[object Object]\<close> have no scheme; the conversion of arrays is outside the model.
\<close>

fun node_URL :: "js_value \<Rightarrow> url option" where
  "node_URL (String s) = URL_parse s"
| "node_URL Undefined = URL_parse ''undefined''"
| "node_URL Null = URL_parse ''null''"
| "node_URL (Boolean b) = URL_parse (if b then ''true'' else ''false'')"
| "node_URL (Number n) = None"
| "node_URL (Object fs) = URL_parse ''[object Object]''"
| "node_URL (Array xs) = None"

section \<open>The README cache\<close>

text \<open>
  Modelled from the spec: \<^verbatim>\<open>NodeCache\<close>, the cache library behind
  \<^verbatim>\<open>new NodeCache({ stdTTL: 3600 })\<close>, is not among the sources. The spec gives it
  get-by-key, set-by-key with a fixed time to live and automatic expiry: an entry holds
  its value and the time at which it expires, \<^verbatim>\<open>set\<close> stamps the entry with the current time
  plus the time to live, and \<^verbatim>\<open>get\<close> returns \<^verbatim>\<open>undefined\<close> for a key that is absent or
  expired. Times are milliseconds, as \<^verbatim>\<open>Date.now()\<close> counts them; \<open>stdTTL\<close> is the
  source's constant, in seconds. An expired entry stays in the map and is hidden by
  \<open>cache_get\<close>, which no later \<^verbatim>\<open>get\<close> can tell from its eviction.
\<close>

record cache_entry =
  entry_value :: string
  expires :: nat

type_synonym node_cache = "string \<Rightarrow> cache_entry option"

definition stdTTL :: nat where
  "stdTTL = 3600"

text \<open>
  Modelled from the spec: \<^verbatim>\<open>cache.set(key, value)\<close> of \<^verbatim>\<open>NodeCache\<close> at the time
  \<open>now\<close>; the entry expires \<open>stdTTL\<close> seconds later.
\<close>

definition cache_set :: "nat \<Rightarrow> node_cache \<Rightarrow> string \<Rightarrow> string \<Rightarrow> node_cache" where
  "cache_set now c key data = c(key \<mapsto> \<lparr>entry_value = data, expires = now + stdTTL * 1000\<rparr>)"

text \<open>
  Modelled from the spec: \<^verbatim>\<open>cache.get(key)\<close> of \<^verbatim>\<open>NodeCache\<close> at the time \<open>now\<close>;
  \<open>None\<close> is \<^verbatim>\<open>undefined\<close>. An entry is expired once the clock has passed its time.
\<close>

definition cache_get :: "nat \<Rightarrow> node_cache \<Rightarrow> string \<Rightarrow> string option" where
  "cache_get now c key =
     (case c key of
        None \<Rightarrow> None
      | Some e \<Rightarrow> if expires e < now then None else Some (entry_value e))"

section \<open>The README fetcher: \<^verbatim>\<open>fetchRepoReadme\<close>\<close>

text \<open>
  The state of the process: the cache, the clock (milliseconds), and the requests sent to
  the GitHub API so far, oldest first. Console output is not modelled.
\<close>

record server =
  cache :: node_cache
  clock :: nat
  requests :: "(string \<times> string) list"

text \<open>
  The collaborators of the endpoint, none of them part of the repository.
  \<open>octokit_request ow rp\<close> is the outcome of
  \<^verbatim>\<open>octokit.request("GET /repos/{owner}/{repo}/readme", ...)\<close>: the raw README, or the error
  thrown; \<open>latency\<close> is the time the awaited request takes. \<open>marked_parse\<close> and
  \<open>sanitize\<close> are \<^verbatim>\<open>marked.parse\<close> and \<^verbatim>\<open>DOMPurify.sanitize\<close>, \<open>None\<close> where they throw:
  the errors of these two libraries carry no \<^verbatim>\<open>status\<close> property.
\<close>

record runtime =
  new_URL :: "js_value \<Rightarrow> url option"
  octokit_request :: "string \<Rightarrow> string \<Rightarrow> js_error + string"
  latency :: nat
  marked_parse :: "string \<Rightarrow> string option"
  sanitize :: "string \<Rightarrow> string option"

text \<open>
  Lines 50 to 64: the request, and on success \<^verbatim>\<open>cache.set(cacheKey, data)\<close>. A thrown
  error leaves the function before the cache is touched.
\<close>

definition fetch_from_github ::
  "runtime \<Rightarrow> string \<Rightarrow> string \<Rightarrow> server \<Rightarrow> (js_error + string) \<times> server" where
  "fetch_from_github rt ow rp s =
     (let cacheKey = ow @ ''/'' @ rp;
          s1 = s\<lparr>clock := clock s + latency rt, requests := requests s @ [(ow, rp)]\<rparr>
      in case octokit_request rt ow rp of
           Inl e \<Rightarrow> (Inl e, s1)
         | Inr data \<Rightarrow> (Inr data, s1\<lparr>cache := cache_set (clock s1) (cache s1) cacheKey data\<rparr>))"

text \<open>
  \<^verbatim>\<open>if (cachedData)\<close> tests the cached value for truthiness: \<^verbatim>\<open>undefined\<close> and the empty
  string both take the miss branch.
\<close>

definition fetchRepoReadme ::
  "runtime \<Rightarrow> string \<Rightarrow> string \<Rightarrow> server \<Rightarrow> (js_error + string) \<times> server" where
  "fetchRepoReadme rt ow rp s =
     (let cacheKey = ow @ ''/'' @ rp
      in case cache_get (clock s) (cache s) cacheKey of
           None \<Rightarrow> fetch_from_github rt ow rp s
         | Some cachedData \<Rightarrow>
             if cachedData \<noteq> [] then (Inr cachedData, s)
             else fetch_from_github rt ow rp s)"

section \<open>The endpoint: \<^verbatim>\<open>POST /api/fetch-readme\<close>\<close>

datatype response_body =
    ErrorBody string
  | HtmlBody string

record response =
  status :: nat
  json :: response_body

text \<open>
  \<^verbatim>\<open>const { url } = req.body\<close>: destructuring \<^verbatim>\<open>undefined\<close> or \<^verbatim>\<open>null\<close> throws a
  \<^verbatim>\<open>TypeError\<close>; an object gives its member \<^verbatim>\<open>url\<close>, the last one where the JSON text
  repeats the key, and \<^verbatim>\<open>undefined\<close> without one; any other value has no such property.
\<close>

fun destructure_url :: "js_value \<Rightarrow> js_error + js_value" where
  "destructure_url Undefined = Inl (PlainError ''TypeError: Cannot destructure property url'')"
| "destructure_url Null = Inl (PlainError ''TypeError: Cannot destructure property url'')"
| "destructure_url (Object fs) =
     Inr (case map_of (rev fs) ''url'' of None \<Rightarrow> Undefined | Some x \<Rightarrow> x)"
| "destructure_url (Boolean b) = Inr Undefined"
| "destructure_url (Number n) = Inr Undefined"
| "destructure_url (String x) = Inr Undefined"
| "destructure_url (Array xs) = Inr Undefined"

text \<open>The global error-handling middleware, reached through \<^verbatim>\<open>next(error)\<close>.\<close>

definition error_middleware :: "js_error \<Rightarrow> response" where
  "error_middleware err = \<lparr>status = 500, json = ErrorBody ''Internal Server Error''\<rparr>"

text \<open>The \<^verbatim>\<open>catch\<close> block of the endpoint.\<close>

definition catch_error :: "js_error \<Rightarrow> response" where
  "catch_error e =
     (if err_status e = Some 404
      then \<lparr>status = 404, json = ErrorBody ''Repository or Readme not found.''\<rparr>
      else if err_status e = Some 403 \<or> err_status e = Some 429
      then \<lparr>status = 429, json = ErrorBody ''GitHub API rate limit exceeded.''\<rparr>
      else error_middleware e)"

definition invalid_url_response :: response where
  "invalid_url_response =
     \<lparr>status = 400, json = ErrorBody ''Invalid URL. Format: https://github.com/:owner/:repo''\<rparr>"

text \<open>
  Lines 105 to 111: \<^verbatim>\<open>marked.parse\<close>, then \<^verbatim>\<open>DOMPurify.sanitize\<close>, then the response, whose
  status is the default 200.
\<close>

definition render :: "runtime \<Rightarrow> string \<Rightarrow> js_error + response" where
  "render rt markdown =
     (case marked_parse rt markdown of
        None \<Rightarrow> Inl (PlainError ''marked.parse'')
      | Some rawHtml \<Rightarrow>
          (case sanitize rt rawHtml of
             None \<Rightarrow> Inl (PlainError ''DOMPurify.sanitize'')
           | Some cleanHtml \<Rightarrow> Inr \<lparr>status = 200, json = HtmlBody cleanHtml\<rparr>))"

text \<open>The body of the endpoint's \<^verbatim>\<open>try\<close> block; \<open>Inl\<close> is an error thrown inside it.\<close>

definition fetch_readme_try ::
  "runtime \<Rightarrow> js_value \<Rightarrow> server \<Rightarrow> (js_error + response) \<times> server" where
  "fetch_readme_try rt req_body s =
     (case destructure_url req_body of
        Inl e \<Rightarrow> (Inl e, s)
      | Inr u \<Rightarrow>
          (case parseGitHubUrl (new_URL rt) u of
             Inl e \<Rightarrow> (Inl e, s)
           | Inr None \<Rightarrow> (Inr invalid_url_response, s)
           | Inr (Some repoInfo) \<Rightarrow>
               (case fetchRepoReadme rt (owner repoInfo) (repo repoInfo) s of
                  (Inl e, s') \<Rightarrow> (Inl e, s')
                | (Inr markdown, s') \<Rightarrow> (render rt markdown, s'))))"

definition fetch_readme :: "runtime \<Rightarrow> js_value \<Rightarrow> server \<Rightarrow> response \<times> server" where
  "fetch_readme rt req_body s =
     (case fetch_readme_try rt req_body s of
        (Inl e, s') \<Rightarrow> (catch_error e, s')
      | (Inr res, s') \<Rightarrow> (res, s'))"

section \<open>The spec's vocabulary\<close>

text \<open>
  A host is GitHub's when it is \<^verbatim>\<open>github.com\<close> with an optional leading \<^verbatim>\<open>www.\<close>;
  \<open>github_host_ci\<close> is the same test without regard to the case of letters.
\<close>

definition github_host :: "string \<Rightarrow> bool" where
  "github_host h = (h = ''github.com'' \<or> h = ''www.github.com'')"

definition github_host_ci :: "string \<Rightarrow> bool" where
  "github_host_ci h = github_host (map ascii_lower h)"




section \<open>A server to run\<close>

text \<open>
  A freshly started process, and collaborators for running the endpoint on concrete
  requests: a GitHub that knows four repositories of \<^verbatim>\<open>octocat\<close>, one with an empty README,
  one behind the rate limit and one that fails, and stand-ins for the two rendering
  libraries.
\<close>

definition initial_server :: server where
  "initial_server = \<lparr>cache = Map.empty, clock = 0, requests = []\<rparr>"

definition test_request :: "string \<Rightarrow> string \<Rightarrow> js_error + string" where
  "test_request ow rp =
     (if ow = ''octocat'' \<and> rp = ''Hello-World'' then Inr ''Hello World!''
      else if ow = ''octocat'' \<and> rp = ''empty'' then Inr []
      else if ow = ''octocat'' \<and> rp = ''limited'' then Inl (RequestError 403)
      else if ow = ''octocat'' \<and> rp = ''broken'' then Inl (RequestError 500)
      else Inl (RequestError 404))"

definition test_runtime :: runtime where
  "test_runtime =
     \<lparr>new_URL = node_URL,
      octokit_request = test_request,
      latency = 250,
      marked_parse = (\<lambda>m. Some (''<p>'' @ m @ ''</p>'')),
      sanitize = Some\<rparr>"

section \<open>Running the URL constructor\<close>

lemmas url_defs =
  URL_parse_def url_input_def take_scheme_def parse_special_def parse_domain_def
  special_schemes_def scheme_char_def ascii_alpha_def ascii_digit_def ascii_hex_digit_def
  ascii_lower_def ascii_upper_letters_def ascii_lower_letters_def ascii_digits_def
  backslash_def c0_control_or_space_def tab_or_newline_def forbidden_domain_char_def
  ends_in_number_def punycode_label_def valid_port_def decimal_def path_separator_def
  single_dot_def double_dot_def path_encode_char_def outside_path_def percent_encode_def
  hex_digit_of_def hex_value_def serialize_path_def authority_end_def

lemma URL_octocat:
  "URL_parse ''https://github.com/octocat/Hello-World'' =
     Some \<lparr>hostname = ''github.com'', pathname = ''/octocat/Hello-World''\<rparr>"
  by (simp add: url_defs)


lemma URL_gitlab:
  "URL_parse ''https://gitlab.com/octocat/Hello-World'' =
     Some \<lparr>hostname = ''gitlab.com'', pathname = ''/octocat/Hello-World''\<rparr>"
  by (simp add: url_defs)

lemma URL_one_segment:
  "URL_parse ''https://github.com/octocat'' =
     Some \<lparr>hostname = ''github.com'', pathname = ''/octocat''\<rparr>"
  by (simp add: url_defs)

lemma URL_missing:
  "URL_parse ''https://github.com/octocat/missing'' =
     Some \<lparr>hostname = ''github.com'', pathname = ''/octocat/missing''\<rparr>"
  by (simp add: url_defs)

lemma URL_limited:
  "URL_parse ''https://github.com/octocat/limited'' =
     Some \<lparr>hostname = ''github.com'', pathname = ''/octocat/limited''\<rparr>"
  by (simp add: url_defs)

lemma URL_broken:
  "URL_parse ''https://github.com/octocat/broken'' =
     Some \<lparr>hostname = ''github.com'', pathname = ''/octocat/broken''\<rparr>"
  by (simp add: url_defs)

lemma URL_not_a_url: "URL_parse ''not-a-url'' = None"
  by (simp add: url_defs)

lemma URL_undefined: "URL_parse ''undefined'' = None"
  by (simp add: url_defs)

lemma path_parts_octocat: "path_parts ''/octocat/Hello-World'' = [''octocat'', ''Hello-World'']"
  by (simp add: path_parts_def)

lemma path_parts_octocat_tree:
  "path_parts ''/octocat/Hello-World/tree/master'' =
     [''octocat'', ''Hello-World'', ''tree'', ''master'']"
  by (simp add: path_parts_def)

lemma path_parts_one_segment: "path_parts ''/octocat'' = [''octocat'']"
  by (simp add: path_parts_def)

section \<open>The segments of a path\<close>

text \<open>
  What \<^verbatim>\<open>split("/").filter(Boolean)\<close> yields, read off the string: slashes are dropped,
  and a run of other characters is one segment.
\<close>

lemma split_on_nonempty: "split_on d s \<noteq> []"
  by (induction s) (auto split: list.splits)

lemma split_on_no_separator: "d \<notin> set s \<Longrightarrow> split_on d s = [s]"
  by (induction s) auto

lemma split_on_append: "split_on d (xs @ d # ys) = split_on d xs @ split_on d ys"
  by (induction xs) (auto split: list.splits simp: split_on_nonempty)

lemma path_parts_append:
  "path_parts (xs @ CHR ''/'' # ys) = path_parts xs @ path_parts ys"
  by (simp add: path_parts_def split_on_append)

lemma path_parts_Nil: "path_parts [] = []"
  by (simp add: path_parts_def)

lemma path_parts_slashes:
  "list_all (\<lambda>c. c = CHR ''/'') pre \<Longrightarrow> path_parts (pre @ xs) = path_parts xs"
proof (induction pre)
  case Nil
  then show ?case by simp
next
  case (Cons c pre)
  then have "path_parts ((c # pre) @ xs) = path_parts ([] @ CHR ''/'' # (pre @ xs))"
    by simp
  also have "\<dots> = path_parts [] @ path_parts (pre @ xs)"
    by (rule path_parts_append)
  finally show ?case using Cons by (simp add: path_parts_Nil)
qed

lemma path_parts_segment:
  "CHR ''/'' \<notin> set s \<Longrightarrow> s \<noteq> [] \<Longrightarrow> path_parts s = [s]"
  by (simp add: path_parts_def split_on_no_separator)

lemma path_parts_segment_then:
  assumes "CHR ''/'' \<notin> set s" "s \<noteq> []" "post = [] \<or> hd post = CHR ''/''"
  shows "path_parts (s @ post) = s # path_parts post"
proof (cases post)
  case Nil
  with assms show ?thesis by (simp add: path_parts_segment path_parts_Nil)
next
  case (Cons c p)
  with assms have c: "c = CHR ''/''" by simp
  have "path_parts (CHR ''/'' # p) = path_parts p"
    using path_parts_append [of "[]" p] by (simp add: path_parts_Nil)
  then have "path_parts post = path_parts p" using Cons c by simp
  moreover have "path_parts (s @ CHR ''/'' # p) = [s] @ path_parts p"
    using assms path_parts_append [of s p] by (simp add: path_parts_segment)
  ultimately show ?thesis using Cons c by simp
qed


lemma path_parts_at_most_one:
  assumes "list_all (\<lambda>c. c = CHR ''/'') pre" "CHR ''/'' \<notin> set seg"
    and "list_all (\<lambda>c. c = CHR ''/'') post"
  shows "length (path_parts (pre @ seg @ post)) < 2"
proof -
  have p: "path_parts post = []"
    using path_parts_slashes [OF assms(3), of "[]"] by (simp add: path_parts_Nil)
  have 1: "path_parts (pre @ seg @ post) = path_parts (seg @ post)"
    using assms(1) by (rule path_parts_slashes)
  show ?thesis
  proof (cases "seg = []")
    case True
    with 1 p show ?thesis by simp
  next
    case False
    have "post = [] \<or> hd post = CHR ''/''"
      using assms(3) by (cases post) auto
    with assms(2) False have "path_parts (seg @ post) = seg # path_parts post"
      by (intro path_parts_segment_then) auto
    with 1 p show ?thesis by simp
  qed
qed

section \<open>The URL constructor on GitHub addresses\<close>












lemma split_segments_nonempty: "split_segments s \<noteq> []"
  by (induction s) (auto split: list.splits)











section \<open>Properties of \<^verbatim>\<open>parseGitHubUrl\<close>\<close>

lemma strip_www_github: "strip_www h = ''github.com'' \<longleftrightarrow> github_host h"
proof
  assume a: "strip_www h = ''github.com''"
  show "github_host h"
  proof (cases "take 4 h = ''www.''")
    case True
    with a have "drop 4 h = ''github.com''" by (simp add: strip_www_def)
    with True have "h = ''www.'' @ ''github.com''"
      by (metis append_take_drop_id)
    then show ?thesis by (simp add: github_host_def)
  next
    case False
    with a show ?thesis by (simp add: strip_www_def github_host_def)
  qed
next
  assume "github_host h"
  then show "strip_www h = ''github.com''"
    by (auto simp: github_host_def strip_www_def)
qed

lemma github_host_imp_ci: "github_host h \<Longrightarrow> github_host_ci h"
  by (auto simp: github_host_def github_host_ci_def ascii_lower_def ascii_upper_letters_def
        ascii_lower_letters_def)

lemma path_parts_nonempty: "p \<in> set (path_parts x) \<Longrightarrow> p \<noteq> []"
  by (simp add: path_parts_def)

text \<open>The two results of the parser, in terms of the object the constructor returns.\<close>

lemma parseGitHubUrl_Some:
  "parseGitHubUrl new_url v = Inr (Some r) \<longleftrightarrow>
     (\<exists>u. new_url v = Some u \<and> github_host (hostname u) \<and>
          2 \<le> length (path_parts (pathname u)) \<and>
          r = \<lparr>owner = path_parts (pathname u) ! 0, repo = path_parts (pathname u) ! 1\<rparr>)"
  by (auto simp: parseGitHubUrl_def parseGitHubUrl_try_def Let_def strip_www_github
           split: option.splits)

lemma parseGitHubUrl_None:
  "parseGitHubUrl new_url v = Inr None \<longleftrightarrow>
     (case new_url v of
        None \<Rightarrow> True
      | Some u \<Rightarrow> \<not> github_host (hostname u) \<or> length (path_parts (pathname u)) < 2)"
  by (auto simp: parseGitHubUrl_def parseGitHubUrl_try_def Let_def strip_www_github
           split: option.splits)

lemma parseGitHubUrl_Inr: "\<exists>r. parseGitHubUrl new_url v = Inr r"
  by (simp add: parseGitHubUrl_def split: sum.splits)

lemma parse_octocat:
  "parseGitHubUrl node_URL (String ''https://github.com/octocat/Hello-World'') =
     Inr (Some \<lparr>owner = ''octocat'', repo = ''Hello-World''\<rparr>)"
  by (simp add: parseGitHubUrl_Some URL_octocat github_host_def path_parts_octocat)

lemma parse_missing:
  "parseGitHubUrl node_URL (String ''https://github.com/octocat/missing'') =
     Inr (Some \<lparr>owner = ''octocat'', repo = ''missing''\<rparr>)"
  by (simp add: parseGitHubUrl_Some URL_missing github_host_def path_parts_def)

lemma parse_limited:
  "parseGitHubUrl node_URL (String ''https://github.com/octocat/limited'') =
     Inr (Some \<lparr>owner = ''octocat'', repo = ''limited''\<rparr>)"
  by (simp add: parseGitHubUrl_Some URL_limited github_host_def path_parts_def)

lemma parse_broken:
  "parseGitHubUrl node_URL (String ''https://github.com/octocat/broken'') =
     Inr (Some \<lparr>owner = ''octocat'', repo = ''broken''\<rparr>)"
  by (simp add: parseGitHubUrl_Some URL_broken github_host_def path_parts_def)

lemma parse_not_a_url: "parseGitHubUrl node_URL (String ''not-a-url'') = Inr None"
  by (simp add: parseGitHubUrl_None URL_not_a_url)

lemma parse_undefined: "parseGitHubUrl node_URL Undefined = Inr None"
  by (simp add: parseGitHubUrl_None URL_undefined)





text \<open>
  \<^bold>\<open>C3\<close>: the parser returns \<^verbatim>\<open>null\<close> for every input that is not an absolute URL (the
  constructor rejects it), or whose hostname is not \<^verbatim>\<open>github.com\<close> with an optional leading
  \<^verbatim>\<open>www.\<close>, even without regard to case, or whose path has fewer than two non-empty
  segments. The last condition is taken both ways: as the parser counts the segments, and
  read off the path itself, which is then slashes, at most one run of other characters,
  and slashes.
\<close>

theorem parse_rejects:
  "new_url v = None \<or>
   (\<exists>u. new_url v = Some u \<and>
        (\<not> github_host_ci (hostname u) \<or> length (path_parts (pathname u)) < 2 \<or>
         (\<exists>pre seg post. pathname u = pre @ seg @ post \<and> list_all (\<lambda>c. c = CHR ''/'') pre \<and>
            CHR ''/'' \<notin> set seg \<and> list_all (\<lambda>c. c = CHR ''/'') post)))
   \<Longrightarrow> parseGitHubUrl new_url v = Inr None"
  by (auto simp: parseGitHubUrl_None path_parts_at_most_one dest: github_host_imp_ci)

theorem parse_rejects_witness:
  "parseGitHubUrl node_URL (String ''not-a-url'') = Inr None \<and>
   parseGitHubUrl node_URL (String ''https://gitlab.com/octocat/Hello-World'') = Inr None \<and>
   parseGitHubUrl node_URL (String ''https://github.com/octocat'') = Inr None"
proof -
  have 1: "parseGitHubUrl node_URL (String ''not-a-url'') = Inr None"
    by (rule parse_rejects) (simp add: URL_not_a_url)
  have "\<not> github_host_ci ''gitlab.com''"
    by (simp add: github_host_ci_def github_host_def ascii_lower_def ascii_upper_letters_def
          ascii_lower_letters_def)
  then have 2: "parseGitHubUrl node_URL (String ''https://gitlab.com/octocat/Hello-World'') = Inr None"
    by (intro parse_rejects) (simp add: URL_gitlab)
  have "''/octocat'' = ''/'' @ ''octocat'' @ [] \<and> list_all (\<lambda>c. c = CHR ''/'') ''/'' \<and>
      CHR ''/'' \<notin> set ''octocat'' \<and> list_all (\<lambda>c. c = CHR ''/'') []"
    by simp
  then have "\<exists>pre seg post. ''/octocat'' = pre @ seg @ post \<and> list_all (\<lambda>c. c = CHR ''/'') pre \<and>
      CHR ''/'' \<notin> set seg \<and> list_all (\<lambda>c. c = CHR ''/'') post"
    by blast
  then have 3: "parseGitHubUrl node_URL (String ''https://github.com/octocat'') = Inr None"
    by (intro parse_rejects) (simp add: URL_one_segment)
  from 1 2 3 show ?thesis by simp
qed



text \<open>
  \<^bold>\<open>C9\<close>: whenever the parser returns a RepoRef, its owner and its repo are non-empty
  strings, the first two non-empty segments of a URL path that has at least two.
\<close>

theorem parsed_ref_nonempty:
  "parseGitHubUrl new_url v = Inr (Some r) \<Longrightarrow>
     owner r \<noteq> [] \<and> repo r \<noteq> [] \<and>
     (\<exists>u. new_url v = Some u \<and> 2 \<le> length (path_parts (pathname u)) \<and>
          owner r = path_parts (pathname u) ! 0 \<and> repo r = path_parts (pathname u) ! 1)"
proof -
  assume "parseGitHubUrl new_url v = Inr (Some r)"
  then obtain u where u: "new_url v = Some u" "2 \<le> length (path_parts (pathname u))"
    and r: "r = \<lparr>owner = path_parts (pathname u) ! 0, repo = path_parts (pathname u) ! 1\<rparr>"
    by (auto simp: parseGitHubUrl_Some)
  from u(2) have "path_parts (pathname u) ! 0 \<in> set (path_parts (pathname u))"
    and "path_parts (pathname u) ! 1 \<in> set (path_parts (pathname u))"
    by (auto intro!: nth_mem)
  then have "path_parts (pathname u) ! 0 \<noteq> []" and "path_parts (pathname u) ! 1 \<noteq> []"
    by (auto dest: path_parts_nonempty)
  with u r show ?thesis by auto
qed

theorem parsed_ref_nonempty_witness:
  "parseGitHubUrl node_URL (String ''https://github.com/octocat/Hello-World'') =
     Inr (Some \<lparr>owner = ''octocat'', repo = ''Hello-World''\<rparr>) \<and>
   owner \<lparr>owner = ''octocat'', repo = ''Hello-World''\<rparr> \<noteq> [] \<and>
   repo \<lparr>owner = ''octocat'', repo = ''Hello-World''\<rparr> \<noteq> []"
proof -
  have h: "parseGitHubUrl node_URL (String ''https://github.com/octocat/Hello-World'') =
     Inr (Some \<lparr>owner = ''octocat'', repo = ''Hello-World''\<rparr>)"
    by (rule parse_octocat)
  from parsed_ref_nonempty [OF h] h show ?thesis by blast
qed

section \<open>Properties of the cache and of \<^verbatim>\<open>fetchRepoReadme\<close>\<close>

lemma cache_get_set_same:
  "cache_get g (cache_set t c k d) k = (if t + 3600000 < g then None else Some d)"
  by (simp add: cache_get_def cache_set_def stdTTL_def)

lemma cache_get_set_other:
  "k' \<noteq> k \<Longrightarrow> cache_get g (cache_set t c k d) k' = cache_get g c k'"
  by (simp add: cache_get_def cache_set_def)

text \<open>The miss branch is taken for an absent or expired key and for a cached empty string.\<close>

lemma fetch_miss:
  "cache_get (clock s) (cache s) (ow @ ''/'' @ rp) = None \<or>
   cache_get (clock s) (cache s) (ow @ ''/'' @ rp) = Some [] \<Longrightarrow>
   fetchRepoReadme rt ow rp s = fetch_from_github rt ow rp s"
  by (auto simp: fetchRepoReadme_def)

text \<open>
  A cached README that is not empty is returned as it is: the state is unchanged, so no
  request was sent.
\<close>

lemma fetch_hit:
  "cache_get (clock s) (cache s) (ow @ ''/'' @ rp) = Some d \<Longrightarrow> d \<noteq> [] \<Longrightarrow>
   fetchRepoReadme rt ow rp s = (Inr d, s)"
  by (simp add: fetchRepoReadme_def)

text \<open>
  \<^bold>\<open>C5\<close> says that a fetch for a key whose value is in the cache returns it without a
  request to the API. Here the README of \<^verbatim>\<open>octocat/empty\<close> is the empty string. The first
  fetch stores it; one second later the cache still holds it, and the second fetch sends
  a second request.
\<close>

theorem empty_readme_fetched_again:
  "cache_get 1250 (cache (snd (fetchRepoReadme test_runtime ''octocat'' ''empty'' initial_server)))
     ''octocat/empty'' = Some [] \<and>
   requests (snd (fetchRepoReadme test_runtime ''octocat'' ''empty''
     ((snd (fetchRepoReadme test_runtime ''octocat'' ''empty'' initial_server))\<lparr>clock := 1250\<rparr>))) =
     [(''octocat'', ''empty''), (''octocat'', ''empty'')]"
proof -
  have up: "octokit_request test_runtime ''octocat'' ''empty'' = Inr []"
    by (simp add: test_runtime_def test_request_def)
  have s1: "snd (fetchRepoReadme test_runtime ''octocat'' ''empty'' initial_server) =
        \<lparr>cache = cache_set 250 Map.empty ''octocat/empty'' [], clock = 250,
         requests = [(''octocat'', ''empty'')]\<rparr>"
    by (simp add: fetchRepoReadme_def fetch_from_github_def Let_def initial_server_def
          cache_get_def test_runtime_def test_request_def)
  have g: "cache_get 1250 (cache_set 250 Map.empty ''octocat/empty'' []) ''octocat/empty'' = Some []"
    by (simp add: cache_get_set_same)
  have s2: "requests (snd (fetchRepoReadme test_runtime ''octocat'' ''empty''
      \<lparr>cache = cache_set 250 Map.empty ''octocat/empty'' [], clock = 1250,
       requests = [(''octocat'', ''empty'')]\<rparr>)) = [(''octocat'', ''empty''), (''octocat'', ''empty'')]"
    by (simp add: fetchRepoReadme_def g fetch_from_github_def Let_def up)
  show ?thesis
    by (simp add: s1 g s2)
qed

text \<open>
  \<^bold>\<open>C7\<close>: on a cache miss the fetcher changes the cache only when the request succeeds,
  storing the fetched Markdown under \<^verbatim>\<open>owner/repo\<close>, where it can be read back; when the
  request fails, the error thrown is the upstream error itself, with its status, and the
  cache is as it was.
\<close>

theorem fetch_miss_cache_effect:
  "cache_get (clock s) (cache s) (ow @ ''/'' @ rp) = None \<or>
   cache_get (clock s) (cache s) (ow @ ''/'' @ rp) = Some [] \<Longrightarrow>
   (octokit_request rt ow rp = Inr data \<longrightarrow>
      fst (fetchRepoReadme rt ow rp s) = Inr data \<and>
      cache (snd (fetchRepoReadme rt ow rp s)) =
        cache_set (clock s + latency rt) (cache s) (ow @ ''/'' @ rp) data \<and>
      cache_get (clock (snd (fetchRepoReadme rt ow rp s))) (cache (snd (fetchRepoReadme rt ow rp s)))
        (ow @ ''/'' @ rp) = Some data) \<and>
   (octokit_request rt ow rp = Inl e \<longrightarrow>
      fst (fetchRepoReadme rt ow rp s) = Inl e \<and>
      cache (snd (fetchRepoReadme rt ow rp s)) = cache s)"
proof -
  assume "cache_get (clock s) (cache s) (ow @ ''/'' @ rp) = None \<or>
          cache_get (clock s) (cache s) (ow @ ''/'' @ rp) = Some []"
  then have "fetchRepoReadme rt ow rp s = fetch_from_github rt ow rp s"
    by (rule fetch_miss)
  then show ?thesis
    by (simp add: fetch_from_github_def Let_def cache_get_set_same)
qed

theorem fetch_miss_cache_effect_witness:
  "fst (fetchRepoReadme test_runtime ''octocat'' ''Hello-World'' initial_server) = Inr ''Hello World!'' \<and>
   cache_get 250 (cache (snd (fetchRepoReadme test_runtime ''octocat'' ''Hello-World'' initial_server)))
     ''octocat/Hello-World'' = Some ''Hello World!'' \<and>
   fst (fetchRepoReadme test_runtime ''octocat'' ''missing'' initial_server) = Inl (RequestError 404) \<and>
   cache (snd (fetchRepoReadme test_runtime ''octocat'' ''missing'' initial_server)) = Map.empty"
proof -
  have miss: "cache_get (clock initial_server) (cache initial_server) k = None" for k
    by (simp add: initial_server_def cache_get_def)
  have ok: "octokit_request test_runtime ''octocat'' ''Hello-World'' = Inr ''Hello World!''"
    by (simp add: test_runtime_def test_request_def)
  have ko: "octokit_request test_runtime ''octocat'' ''missing'' = Inl (RequestError 404)"
    by (simp add: test_runtime_def test_request_def)
  have t: "clock (snd (fetchRepoReadme test_runtime ''octocat'' ''Hello-World'' initial_server)) = 250"
    by (simp add: fetchRepoReadme_def fetch_from_github_def Let_def initial_server_def
          cache_get_def test_runtime_def test_request_def)
  from fetch_miss_cache_effect [of initial_server "''octocat''" "''Hello-World''" test_runtime
      "''Hello World!''"] miss ok t
  have 1: "fst (fetchRepoReadme test_runtime ''octocat'' ''Hello-World'' initial_server) =
        Inr ''Hello World!'' \<and>
      cache_get 250
        (cache (snd (fetchRepoReadme test_runtime ''octocat'' ''Hello-World'' initial_server)))
        ''octocat/Hello-World'' = Some ''Hello World!''"
    by (simp add: cache_get_set_same)
  from fetch_miss_cache_effect [of initial_server "''octocat''" "''missing''" test_runtime
      _ "RequestError 404"] miss ko
  have 2: "fst (fetchRepoReadme test_runtime ''octocat'' ''missing'' initial_server) =
        Inl (RequestError 404) \<and>
      cache (snd (fetchRepoReadme test_runtime ''octocat'' ''missing'' initial_server)) = Map.empty"
    by (simp add: initial_server_def)
  from 1 2 show ?thesis by simp
qed

section \<open>Properties of the endpoint\<close>

lemma destructure_error_status: "destructure_url b = Inl e \<Longrightarrow> err_status e = None"
  by (cases b) auto

lemma fetch_readme_destructure_error:
  "destructure_url b = Inl e \<Longrightarrow> fetch_readme rt b s = (catch_error e, s)"
  by (simp add: fetch_readme_def fetch_readme_try_def)

lemma fetch_readme_invalid:
  "destructure_url b = Inr u \<Longrightarrow> parseGitHubUrl (new_URL rt) u = Inr None \<Longrightarrow>
   fetch_readme rt b s = (invalid_url_response, s)"
  by (simp add: fetch_readme_def fetch_readme_try_def)

lemma fetch_readme_upstream_error:
  "destructure_url b = Inr u \<Longrightarrow> parseGitHubUrl (new_URL rt) u = Inr (Some ref) \<Longrightarrow>
   fst (fetchRepoReadme rt (owner ref) (repo ref) s) = Inl e \<Longrightarrow>
   fst (fetch_readme rt b s) = catch_error e"
  by (cases "fetchRepoReadme rt (owner ref) (repo ref) s")
     (simp add: fetch_readme_def fetch_readme_try_def)

lemma fetch_readme_fetched:
  "destructure_url b = Inr u \<Longrightarrow> parseGitHubUrl (new_URL rt) u = Inr (Some ref) \<Longrightarrow>
   fst (fetchRepoReadme rt (owner ref) (repo ref) s) = Inr md \<Longrightarrow>
   fst (fetch_readme rt b s) = (case render rt md of Inl e \<Rightarrow> catch_error e | Inr res \<Rightarrow> res)"
  by (cases "fetchRepoReadme rt (owner ref) (repo ref) s")
     (simp add: fetch_readme_def fetch_readme_try_def split: sum.splits)

lemma catch_error_status: "status (catch_error e) \<in> {404, 429, 500}"
  by (simp add: catch_error_def error_middleware_def)

lemma render_status: "render rt md = Inr res \<Longrightarrow> status res = 200"
  by (auto simp: render_def split: option.splits)

lemma fetch_readme_status: "status (fst (fetch_readme rt b s)) \<in> {200, 400, 404, 429, 500}"
proof (cases "destructure_url b")
  case (Inl e)
  with catch_error_status [of e] show ?thesis
    by (auto simp: fetch_readme_destructure_error)
next
  case (Inr u)
  obtain r where r: "parseGitHubUrl (new_URL rt) u = Inr r"
    using parseGitHubUrl_Inr by blast
  show ?thesis
  proof (cases r)
    case None
    with Inr r show ?thesis
      by (simp add: fetch_readme_invalid invalid_url_response_def)
  next
    case (Some ref)
    show ?thesis
    proof (cases "fst (fetchRepoReadme rt (owner ref) (repo ref) s)")
      case (Inl e)
      with Inr r Some have "fst (fetch_readme rt b s) = catch_error e"
        by (simp add: fetch_readme_upstream_error)
      with catch_error_status [of e] show ?thesis by auto
    next
      case md: (Inr md)
      with Inr r Some have eq: "fst (fetch_readme rt b s) =
          (case render rt md of Inl e \<Rightarrow> catch_error e | Inr res \<Rightarrow> res)"
        by (simp add: fetch_readme_fetched)
      show ?thesis
      proof (cases "render rt md")
        case (Inl e)
        with eq catch_error_status [of e] show ?thesis by auto
      next
        case (Inr res)
        with eq render_status [OF Inr] show ?thesis by simp
      qed
    qed
  qed
qed

text \<open>The state after a request is the state before it, or the state after one fetch.\<close>

lemma fetch_readme_try_state:
  "snd (fetch_readme_try rt b s) = s \<or>
   (\<exists>ow rp. snd (fetch_readme_try rt b s) = snd (fetchRepoReadme rt ow rp s))"
proof (cases "destructure_url b")
  case (Inl e)
  then show ?thesis by (simp add: fetch_readme_try_def)
next
  case (Inr u)
  show ?thesis
  proof (cases "parseGitHubUrl (new_URL rt) u")
    case (Inl e)
    with Inr show ?thesis by (simp add: fetch_readme_try_def)
  next
    case parsed: (Inr r)
    show ?thesis
    proof (cases r)
      case None
      with Inr parsed show ?thesis by (simp add: fetch_readme_try_def)
    next
      case (Some repoInfo)
      with Inr parsed
      have "snd (fetch_readme_try rt b s) = snd (fetchRepoReadme rt (owner repoInfo) (repo repoInfo) s)"
        by (simp add: fetch_readme_try_def split: prod.splits sum.splits)
      then show ?thesis by blast
    qed
  qed
qed

lemma fetch_readme_state:
  "snd (fetch_readme rt b s) = s \<or>
   (\<exists>ow rp. snd (fetch_readme rt b s) = snd (fetchRepoReadme rt ow rp s))"
proof -
  have "snd (fetch_readme rt b s) = snd (fetch_readme_try rt b s)"
    by (simp add: fetch_readme_def split: prod.splits sum.splits)
  with fetch_readme_try_state [of rt b s] show ?thesis by simp
qed

lemma test_fetch:
  "fst (fetchRepoReadme test_runtime ''octocat'' ''Hello-World'' initial_server) = Inr ''Hello World!''"
  "fst (fetchRepoReadme test_runtime ''octocat'' ''missing'' initial_server) = Inl (RequestError 404)"
  "fst (fetchRepoReadme test_runtime ''octocat'' ''limited'' initial_server) = Inl (RequestError 403)"
  "fst (fetchRepoReadme test_runtime ''octocat'' ''broken'' initial_server) = Inl (RequestError 500)"
  by (simp_all add: fetchRepoReadme_def fetch_from_github_def Let_def initial_server_def
        cache_get_def test_runtime_def test_request_def)

lemma test_runtime_simps:
  "new_URL test_runtime = node_URL"
  "marked_parse test_runtime m = Some (''<p>'' @ m @ ''</p>'')"
  "sanitize test_runtime h = Some h"
  by (simp_all add: test_runtime_def)

text \<open>
  \<^bold>\<open>C6\<close>: an entry expires 3600 seconds after it is stored. A \<^verbatim>\<open>get\<close> at most 3600
  seconds (3600000 ms) after the \<^verbatim>\<open>set\<close> returns the value, a later one does not; and a
  request to the endpoint leaves the cache as it was or sets one entry: nothing else
  removes or changes an entry.
\<close>

theorem cache_entry_expiry:
  "(g \<le> t + 3600 * 1000 \<longrightarrow> cache_get g (cache_set t c k d) k = Some d) \<and>
   (t + 3600 * 1000 < g \<longrightarrow> cache_get g (cache_set t c k d) k = None) \<and>
   (cache (snd (fetch_readme rt b s)) = cache s \<or>
    (\<exists>k d. cache (snd (fetch_readme rt b s)) =
       cache_set (clock (snd (fetch_readme rt b s))) (cache s) k d))"
proof -
  have "cache (snd (fetch_from_github rt ow rp s)) = cache s \<or>
    (\<exists>k d. cache (snd (fetch_from_github rt ow rp s)) =
        cache_set (clock (snd (fetch_from_github rt ow rp s))) (cache s) k d)" for ow rp
    by (auto simp: fetch_from_github_def Let_def split: sum.splits)
  then have f: "cache (snd (fetchRepoReadme rt ow rp s)) = cache s \<or>
    (\<exists>k d. cache (snd (fetchRepoReadme rt ow rp s)) =
        cache_set (clock (snd (fetchRepoReadme rt ow rp s))) (cache s) k d)" for ow rp
    by (simp add: fetchRepoReadme_def Let_def split: option.splits)
  have "snd (fetch_readme rt b s) = s \<or>
    (\<exists>ow rp. snd (fetch_readme rt b s) = snd (fetchRepoReadme rt ow rp s))"
    by (rule fetch_readme_state)
  with f have "cache (snd (fetch_readme rt b s)) = cache s \<or>
    (\<exists>k d. cache (snd (fetch_readme rt b s)) =
       cache_set (clock (snd (fetch_readme rt b s))) (cache s) k d)"
    by metis
  then show ?thesis
    by (simp add: cache_get_set_same)
qed

theorem cache_entry_expiry_witness:
  "cache_get 3600250 (cache_set 250 Map.empty ''octocat/Hello-World'' ''Hello World!'')
     ''octocat/Hello-World'' = Some ''Hello World!'' \<and>
   cache_get 3600251 (cache_set 250 Map.empty ''octocat/Hello-World'' ''Hello World!'')
     ''octocat/Hello-World'' = None"
proof -
  have 1: "(3600250::nat) \<le> 250 + 3600 * 1000" by simp
  have 2: "(250::nat) + 3600 * 1000 < 3600251" by simp
  from cache_entry_expiry [of 3600250 250 Map.empty "''octocat/Hello-World''" "''Hello World!''"] 1
  have a: "cache_get 3600250 (cache_set 250 Map.empty ''octocat/Hello-World'' ''Hello World!'')
     ''octocat/Hello-World'' = Some ''Hello World!''"
    by blast
  from cache_entry_expiry [of 3600251 250 Map.empty "''octocat/Hello-World''" "''Hello World!''"] 2
  have b: "cache_get 3600251 (cache_set 250 Map.empty ''octocat/Hello-World'' ''Hello World!'')
     ''octocat/Hello-World'' = None"
    by blast
  from a b show ?thesis by simp
qed

text \<open>
  \<^bold>\<open>C2\<close>: every request gets one response, chosen by its outcome. An invalid URL gives 400
  with the format message; an upstream error with status 404 gives 404 with the not-found
  message; an upstream error with status 403 or 429 gives 429 with the rate-limit message;
  every other failure (an upstream error with another status or none, a body that cannot
  be destructured, a failure of the rendering) gives 500 with the fixed message
  \<^verbatim>\<open>Internal Server Error\<close>; success gives 200 with the sanitized HTML. No other status
  occurs.
\<close>

theorem endpoint_responses:
  "(destructure_url b = Inr u \<and> parseGitHubUrl (new_URL rt) u = Inr None \<longrightarrow>
      fst (fetch_readme rt b s) =
        \<lparr>status = 400, json = ErrorBody ''Invalid URL. Format: https://github.com/:owner/:repo''\<rparr>) \<and>
   (destructure_url b = Inr u \<and> parseGitHubUrl (new_URL rt) u = Inr (Some ref) \<and>
    fst (fetchRepoReadme rt (owner ref) (repo ref) s) = Inl e \<and> err_status e = Some 404 \<longrightarrow>
      fst (fetch_readme rt b s) =
        \<lparr>status = 404, json = ErrorBody ''Repository or Readme not found.''\<rparr>) \<and>
   (destructure_url b = Inr u \<and> parseGitHubUrl (new_URL rt) u = Inr (Some ref) \<and>
    fst (fetchRepoReadme rt (owner ref) (repo ref) s) = Inl e \<and>
    (err_status e = Some 403 \<or> err_status e = Some 429) \<longrightarrow>
      fst (fetch_readme rt b s) =
        \<lparr>status = 429, json = ErrorBody ''GitHub API rate limit exceeded.''\<rparr>) \<and>
   (destructure_url b = Inr u \<and> parseGitHubUrl (new_URL rt) u = Inr (Some ref) \<and>
    fst (fetchRepoReadme rt (owner ref) (repo ref) s) = Inl e \<and>
    err_status e \<noteq> Some 404 \<and> err_status e \<noteq> Some 403 \<and> err_status e \<noteq> Some 429 \<longrightarrow>
      fst (fetch_readme rt b s) = \<lparr>status = 500, json = ErrorBody ''Internal Server Error''\<rparr>) \<and>
   (destructure_url b = Inl e \<longrightarrow>
      fst (fetch_readme rt b s) = \<lparr>status = 500, json = ErrorBody ''Internal Server Error''\<rparr>) \<and>
   (destructure_url b = Inr u \<and> parseGitHubUrl (new_URL rt) u = Inr (Some ref) \<and>
    fst (fetchRepoReadme rt (owner ref) (repo ref) s) = Inr md \<and>
    (marked_parse rt md = None \<or> (marked_parse rt md = Some raw \<and> sanitize rt raw = None)) \<longrightarrow>
      fst (fetch_readme rt b s) = \<lparr>status = 500, json = ErrorBody ''Internal Server Error''\<rparr>) \<and>
   (destructure_url b = Inr u \<and> parseGitHubUrl (new_URL rt) u = Inr (Some ref) \<and>
    fst (fetchRepoReadme rt (owner ref) (repo ref) s) = Inr md \<and>
    marked_parse rt md = Some raw \<and> sanitize rt raw = Some html \<longrightarrow>
      fst (fetch_readme rt b s) = \<lparr>status = 200, json = HtmlBody html\<rparr>) \<and>
   status (fst (fetch_readme rt b s)) \<in> {200, 400, 404, 429, 500}"
proof (intro conjI impI)
  show "status (fst (fetch_readme rt b s)) \<in> {200, 400, 404, 429, 500}"
    by (rule fetch_readme_status)
qed (auto simp: fetch_readme_invalid invalid_url_response_def fetch_readme_upstream_error
       fetch_readme_fetched fetch_readme_destructure_error destructure_error_status
       catch_error_def error_middleware_def render_def)

theorem endpoint_responses_witness:
  "fst (fetch_readme test_runtime (Object [(''url'', String ''not-a-url'')]) initial_server) =
     \<lparr>status = 400, json = ErrorBody ''Invalid URL. Format: https://github.com/:owner/:repo''\<rparr> \<and>
   fst (fetch_readme test_runtime
          (Object [(''url'', String ''https://github.com/octocat/missing'')]) initial_server) =
     \<lparr>status = 404, json = ErrorBody ''Repository or Readme not found.''\<rparr> \<and>
   fst (fetch_readme test_runtime
          (Object [(''url'', String ''https://github.com/octocat/limited'')]) initial_server) =
     \<lparr>status = 429, json = ErrorBody ''GitHub API rate limit exceeded.''\<rparr> \<and>
   fst (fetch_readme test_runtime
          (Object [(''url'', String ''https://github.com/octocat/broken'')]) initial_server) =
     \<lparr>status = 500, json = ErrorBody ''Internal Server Error''\<rparr> \<and>
   fst (fetch_readme test_runtime
          (Object [(''url'', String ''https://github.com/octocat/Hello-World'')]) initial_server) =
     \<lparr>status = 200, json = HtmlBody ''<p>Hello World!</p>''\<rparr>"
proof -
  from endpoint_responses [of "Object [(''url'', String ''not-a-url'')]" "String ''not-a-url''"
      test_runtime initial_server]
  have 1: "fst (fetch_readme test_runtime (Object [(''url'', String ''not-a-url'')]) initial_server) =
     \<lparr>status = 400, json = ErrorBody ''Invalid URL. Format: https://github.com/:owner/:repo''\<rparr>"
    by (simp add: test_runtime_simps parse_not_a_url)
  from endpoint_responses [of "Object [(''url'', String ''https://github.com/octocat/missing'')]"
      "String ''https://github.com/octocat/missing''" test_runtime initial_server
      "\<lparr>owner = ''octocat'', repo = ''missing''\<rparr>" "RequestError 404"]
  have 2: "fst (fetch_readme test_runtime
          (Object [(''url'', String ''https://github.com/octocat/missing'')]) initial_server) =
     \<lparr>status = 404, json = ErrorBody ''Repository or Readme not found.''\<rparr>"
    by (simp add: test_runtime_simps parse_missing test_fetch)
  from endpoint_responses [of "Object [(''url'', String ''https://github.com/octocat/limited'')]"
      "String ''https://github.com/octocat/limited''" test_runtime initial_server
      "\<lparr>owner = ''octocat'', repo = ''limited''\<rparr>" "RequestError 403"]
  have 3: "fst (fetch_readme test_runtime
          (Object [(''url'', String ''https://github.com/octocat/limited'')]) initial_server) =
     \<lparr>status = 429, json = ErrorBody ''GitHub API rate limit exceeded.''\<rparr>"
    by (simp add: test_runtime_simps parse_limited test_fetch)
  from endpoint_responses [of "Object [(''url'', String ''https://github.com/octocat/broken'')]"
      "String ''https://github.com/octocat/broken''" test_runtime initial_server
      "\<lparr>owner = ''octocat'', repo = ''broken''\<rparr>" "RequestError 500"]
  have 4: "fst (fetch_readme test_runtime
          (Object [(''url'', String ''https://github.com/octocat/broken'')]) initial_server) =
     \<lparr>status = 500, json = ErrorBody ''Internal Server Error''\<rparr>"
    by (simp add: test_runtime_simps parse_broken test_fetch)
  from endpoint_responses [of "Object [(''url'', String ''https://github.com/octocat/Hello-World'')]"
      "String ''https://github.com/octocat/Hello-World''" test_runtime initial_server
      "\<lparr>owner = ''octocat'', repo = ''Hello-World''\<rparr>" _ "''Hello World!''"
      "''<p>Hello World!</p>''" "''<p>Hello World!</p>''"]
  have 5: "fst (fetch_readme test_runtime
          (Object [(''url'', String ''https://github.com/octocat/Hello-World'')]) initial_server) =
     \<lparr>status = 200, json = HtmlBody ''<p>Hello World!</p>''\<rparr>"
    by (simp add: test_runtime_simps parse_octocat test_fetch)
  from 1 2 3 4 5 show ?thesis by blast
qed

text \<open>
  \<^bold>\<open>C10\<close>, as stated, has every request whose body lacks a \<^verbatim>\<open>url\<close> field, an empty
  request body included, answered with 400. When no body was parsed, \<^verbatim>\<open>req.body\<close> is
  \<^verbatim>\<open>undefined\<close>: the destructuring in the first line of the handler throws, the parser is
  never called, and the response is 500.
\<close>

theorem missing_body_counterexample:
  "fetch_readme test_runtime Undefined initial_server =
     (\<lparr>status = 500, json = ErrorBody ''Internal Server Error''\<rparr>, initial_server) \<and>
   status (fst (fetch_readme test_runtime Undefined initial_server)) \<noteq> 400"
  by (simp add: fetch_readme_destructure_error catch_error_def error_middleware_def)

text \<open>
  \<^bold>\<open>C10\<close>, amended: \<^verbatim>\<open>parseGitHubUrl\<close> returns for every input value, a RepoRef or
  \<^verbatim>\<open>null\<close>, and throws for none; so a request whose body is a value other than
  \<^verbatim>\<open>undefined\<close> and \<^verbatim>\<open>null\<close> and has no \<^verbatim>\<open>url\<close> member, for which the parser is called
  with \<^verbatim>\<open>undefined\<close>, gets the 400 response of an invalid URL (the URL constructor rejects
  \<^verbatim>\<open>undefined\<close>).
\<close>

theorem parseGitHubUrl_never_throws:
  "(\<exists>r. parseGitHubUrl new_url v = Inr r) \<and>
   (new_URL rt Undefined = None \<and> b \<noteq> Undefined \<and> b \<noteq> Null \<and>
    (\<forall>fs. b = Object fs \<longrightarrow> ''url'' \<notin> fst ` set fs) \<longrightarrow>
      fetch_readme rt b s =
        (\<lparr>status = 400, json = ErrorBody ''Invalid URL. Format: https://github.com/:owner/:repo''\<rparr>, s))"
proof (intro conjI impI)
  show "\<exists>r. parseGitHubUrl new_url v = Inr r"
    by (rule parseGitHubUrl_Inr)
next
  assume a: "new_URL rt Undefined = None \<and> b \<noteq> Undefined \<and> b \<noteq> Null \<and>
    (\<forall>fs. b = Object fs \<longrightarrow> ''url'' \<notin> fst ` set fs)"
  have "destructure_url b = Inr Undefined"
  proof (cases b)
    case (Object fs)
    with a have "map_of (rev fs) ''url'' = None"
      by (simp add: map_of_eq_None_iff)
    with Object show ?thesis by simp
  qed (use a in simp_all)
  moreover from a have "parseGitHubUrl (new_URL rt) Undefined = Inr None"
    by (simp add: parseGitHubUrl_None)
  ultimately show "fetch_readme rt b s =
        (\<lparr>status = 400, json = ErrorBody ''Invalid URL. Format: https://github.com/:owner/:repo''\<rparr>, s)"
    by (simp add: fetch_readme_invalid invalid_url_response_def)
qed

theorem parseGitHubUrl_never_throws_witness:
  "parseGitHubUrl node_URL Undefined = Inr None \<and>
   fetch_readme test_runtime (Object []) initial_server =
     (\<lparr>status = 400, json = ErrorBody ''Invalid URL. Format: https://github.com/:owner/:repo''\<rparr>,
      initial_server) \<and>
   fetch_readme test_runtime (Object [(''link'', String ''https://github.com/octocat/Hello-World'')])
       initial_server =
     (\<lparr>status = 400, json = ErrorBody ''Invalid URL. Format: https://github.com/:owner/:repo''\<rparr>,
      initial_server)"
proof -
  have u: "new_URL test_runtime Undefined = None"
    by (simp add: test_runtime_simps URL_undefined)
  from parseGitHubUrl_never_throws [of node_URL Undefined test_runtime "Object []" initial_server] u
  have 1: "parseGitHubUrl node_URL Undefined = Inr None \<and>
   fetch_readme test_runtime (Object []) initial_server =
     (\<lparr>status = 400, json = ErrorBody ''Invalid URL. Format: https://github.com/:owner/:repo''\<rparr>,
      initial_server)"
    by (simp add: parse_undefined)
  from parseGitHubUrl_never_throws [of node_URL Undefined test_runtime
      "Object [(''link'', String ''https://github.com/octocat/Hello-World'')]" initial_server] u
  have 2: "fetch_readme test_runtime
       (Object [(''link'', String ''https://github.com/octocat/Hello-World'')]) initial_server =
     (\<lparr>status = 400, json = ErrorBody ''Invalid URL. Format: https://github.com/:owner/:repo''\<rparr>,
      initial_server)"
    by simp
  from 1 2 show ?thesis by simp
qed

end
